theory Spec2Isabelle
  imports Main
begin

section \<open>The marketplace of E-commerce.py: data\<close>

text \<open>
  The Python classes of \<^verbatim>\<open>E-commerce.py\<close> are records. \<^verbatim>\<open>Product\<close> and
  \<^verbatim>\<open>CustomerAgent\<close> instances are mutable objects that the catalogue, the carts, the
  purchase histories and the orders share by reference, so the model keeps them in
  two stores indexed by a reference, and every list of products is a list of references.

  Prices, budgets and totals are Python floats. The model leaves their type \<open>'a\<close> open
  and uses only \<open>0\<close>, \<open>+\<close>, \<open>-\<close> and \<open>\<le>\<close> on it, with no law assumed; a theorem that
  needs a law of arithmetic or of the order names it. Stock and the identifiers are
  Python's unbounded integers. \<^verbatim>\<open>datetime.now()\<close> is an argument \<open>now\<close>.

  The console output of \<^verbatim>\<open>view_cart\<close> is not part of the state and is left out, as are
  the menus, the sellers and the list of registered customers, which none of the
  operations below reads or writes.
\<close>

datatype ProductCategory = ELECTRONICS | CLOTHING | BOOKS | HOME | SPORTS

type_synonym ref = nat

record 'a Product =
  id_product :: int
  name :: string
  category :: ProductCategory
  price :: 'a
  stock :: int
  seller_id :: int

record 'a Order =
  order_id :: int
  customer_id :: int
  products_order :: "ref list"
  total_amount :: 'a
  status :: string
  timestamp :: nat

record 'a CustomerAgent =
  agent_id :: int
  name_agent :: string
  budget :: 'a
  preferences :: "ProductCategory list"
  purchase_history :: "ref list"
  shopping_cart :: "ref list"

record 'a Marketplace =
  products :: "ref list"
  orders :: "'a Order list"
  order_counter :: int

record 'a system =
  heap :: "ref \<Rightarrow> 'a Product"
  agents :: "ref \<Rightarrow> 'a CustomerAgent"
  market :: "'a Marketplace"

section \<open>Constructors\<close>

definition CustomerAgent_init ::
  "int \<Rightarrow> string \<Rightarrow> 'a \<Rightarrow> ProductCategory list \<Rightarrow> 'a CustomerAgent" where
  "CustomerAgent_init a n b prefs =
     \<lparr>agent_id = a, name_agent = n, budget = b, preferences = prefs,
      purchase_history = [], shopping_cart = []\<rparr>"

definition Marketplace_init :: "'a Marketplace" where
  "Marketplace_init = \<lparr>products = [], orders = [], order_counter = 1\<rparr>"

definition init_system ::
  "(ref \<Rightarrow> 'a Product) \<Rightarrow> (ref \<Rightarrow> 'a CustomerAgent) \<Rightarrow> 'a system" where
  "init_system h cs = \<lparr>heap = h, agents = cs, market = Marketplace_init\<rparr>"

section \<open>Operations\<close>

text \<open>Python's \<^verbatim>\<open>sum\<close> starts from 0 and adds from the left.\<close>

definition py_sum :: "'a::{zero,plus} list \<Rightarrow> 'a" where
  "py_sum xs = foldl (+) 0 xs"

definition add_product :: "'a system \<Rightarrow> ref \<Rightarrow> 'a system" where
  "add_product s r =
     s\<lparr>market := (market s)\<lparr>products := products (market s) @ [r]\<rparr>\<rparr>"

text \<open>
  \<^verbatim>\<open>check_stock\<close> takes the first catalogue entry with the given id
  (\<^verbatim>\<open>next(..., None)\<close>) and answers whether there is one and its stock is positive.
\<close>

definition check_stock :: "'a system \<Rightarrow> int \<Rightarrow> bool" where
  "check_stock s product_id =
     (case find (\<lambda>r. id_product (heap s r) = product_id) (products (market s)) of
        None \<Rightarrow> False
      | Some r \<Rightarrow> 0 < stock (heap s r))"

text \<open>The first loop of \<^verbatim>\<open>process_order\<close>: False stands for the early \<^verbatim>\<open>return None\<close>.\<close>

fun verify_stock :: "'a system \<Rightarrow> ref list \<Rightarrow> bool" where
  "verify_stock s [] = True"
| "verify_stock s (r # rs) =
     (if \<not> check_stock s (id_product (heap s r)) then False else verify_stock s rs)"

text \<open>The second loop: \<^verbatim>\<open>product.stock -= 1\<close> on every entry of the list, in order.\<close>

fun update_stock :: "(ref \<Rightarrow> 'a Product) \<Rightarrow> ref list \<Rightarrow> (ref \<Rightarrow> 'a Product)" where
  "update_stock h [] = h"
| "update_stock h (r # rs) = update_stock (h(r := (h r)\<lparr>stock := stock (h r) - 1\<rparr>)) rs"

definition process_order ::
  "'a::{zero,plus} system \<Rightarrow> ref \<Rightarrow> ref list \<Rightarrow> nat \<Rightarrow> 'a Order option \<times> 'a system" where
  "process_order s customer ps now =
     (if \<not> verify_stock s ps then (None, s)
      else
        let order = \<lparr>order_id = order_counter (market s),
                     customer_id = agent_id (agents s customer),
                     products_order = ps,
                     total_amount = py_sum (map (\<lambda>r. price (heap s r)) ps),
                     status = ''COMPLETED'',
                     timestamp = now\<rparr>
        in (Some order,
            s\<lparr>heap := update_stock (heap s) ps,
              market := (market s)\<lparr>orders := orders (market s) @ [order],
                                   order_counter := order_counter (market s) + 1\<rparr>\<rparr>))"

definition add_to_cart :: "'a::ord system \<Rightarrow> ref \<Rightarrow> ref \<Rightarrow> bool \<times> 'a system" where
  "add_to_cart s self product =
     (if check_stock s (id_product (heap s product))
         \<and> price (heap s product) \<le> budget (agents s self)
      then (True,
            s\<lparr>agents := (agents s)(self := (agents s self)
                 \<lparr>shopping_cart := shopping_cart (agents s self) @ [product]\<rparr>)\<rparr>)
      else (False, s))"

definition remove_from_cart :: "'a system \<Rightarrow> ref \<Rightarrow> int \<Rightarrow> 'a system" where
  "remove_from_cart s self product_id =
     s\<lparr>agents := (agents s)(self := (agents s self)
         \<lparr>shopping_cart :=
            filter (\<lambda>r. id_product (heap s r) \<noteq> product_id) (shopping_cart (agents s self))\<rparr>)\<rparr>"

definition view_cart :: "'a::{zero,plus} system \<Rightarrow> ref \<Rightarrow> 'a" where
  "view_cart s self = py_sum (map (\<lambda>r. price (heap s r)) (shopping_cart (agents s self)))"

definition make_purchase ::
  "'a::{zero,plus,minus,ord} system \<Rightarrow> ref \<Rightarrow> nat \<Rightarrow> bool \<times> 'a system" where
  "make_purchase s self now =
     (let total = view_cart s self in
      if total \<le> budget (agents s self) \<and> shopping_cart (agents s self) \<noteq> [] then
        (case process_order s self (shopping_cart (agents s self)) now of
           (Some order, s') \<Rightarrow>
             (True,
              s'\<lparr>agents := (agents s')(self := (agents s' self)
                   \<lparr>budget := budget (agents s' self) - total,
                    purchase_history :=
                      purchase_history (agents s' self) @ shopping_cart (agents s' self),
                    shopping_cart := []\<rparr>)\<rparr>)
         | (None, s') \<Rightarrow> (False, s'))
      else (False, s))"

section \<open>Sequences of operations\<close>

datatype op =
    Add_product ref
  | Add_to_cart ref ref
  | Remove_from_cart ref int
  | Make_purchase ref nat
  | Process_order ref "ref list" nat

fun step :: "op \<Rightarrow> 'a::{zero,plus,minus,ord} system \<Rightarrow> 'a system" where
  "step (Add_product r) s = add_product s r"
| "step (Add_to_cart c r) s = snd (add_to_cart s c r)"
| "step (Remove_from_cart c i) s = remove_from_cart s c i"
| "step (Make_purchase c now) s = snd (make_purchase s c now)"
| "step (Process_order c ps now) s = snd (process_order s c ps now)"

fun run :: "op list \<Rightarrow> 'a::{zero,plus,minus,ord} system \<Rightarrow> 'a system" where
  "run [] s = s"
| "run (x # xs) s = run xs (step x s)"

definition order_ids :: "'a system \<Rightarrow> int list" where
  "order_ids s = map order_id (orders (market s))"

section \<open>A small shop\<close>

text \<open>
  The scenario of the specification, with whole-number prices: product P (price 100,
  stock 1) behind reference 0, a second product (price 20, stock 5) behind every other
  reference, three customers with budgets 150, 250 and 10, and a catalogue that lists
  references 0 and 1.
\<close>

definition product_P :: "int Product" where
  "product_P = \<lparr>id_product = 1, name = ''P'', category = ELECTRONICS, price = 100,
                 stock = 1, seller_id = 1\<rparr>"

definition product_Q :: "int Product" where
  "product_Q = \<lparr>id_product = 2, name = ''Q'', category = BOOKS, price = 20,
                 stock = 5, seller_id = 3\<rparr>"

definition shop_heap :: "ref \<Rightarrow> int Product" where
  "shop_heap = (\<lambda>_. product_Q)(0 := product_P)"

definition shop_agents :: "ref \<Rightarrow> int CustomerAgent" where
  "shop_agents = (\<lambda>_. CustomerAgent_init 3 ''E'' 10 [BOOKS])
     (0 := CustomerAgent_init 1 ''C'' 150 [ELECTRONICS],
      1 := CustomerAgent_init 2 ''D'' 250 [ELECTRONICS, BOOKS])"

definition shop :: "int system" where
  "shop = run [Add_product 0, Add_product 1] (init_system shop_heap shop_agents)"

section \<open>Floats with their special values\<close>

text \<open>
  A Python float is a finite number, one of the two infinities or nan. The type below has
  these four kinds of value (the finite ones are whole numbers here) with the IEEE rules
  for them: nan is absorbing and compares false with everything, and the difference or
  sum of infinities that cancel is nan. It is one instance of the number type of the
  model, used to run the operations at the values where ordinary arithmetic laws fail.
\<close>

datatype xnum = Fin int | PInf | NInf | NaN

instantiation xnum :: "{zero,plus,minus,ord}"
begin

definition zero_xnum :: xnum where
  "zero_xnum = Fin 0"

fun plus_xnum :: "xnum \<Rightarrow> xnum \<Rightarrow> xnum" where
  "plus_xnum NaN y = NaN"
| "plus_xnum x NaN = NaN"
| "plus_xnum (Fin a) (Fin b) = Fin (a + b)"
| "plus_xnum PInf NInf = NaN"
| "plus_xnum NInf PInf = NaN"
| "plus_xnum PInf y = PInf"
| "plus_xnum x PInf = PInf"
| "plus_xnum NInf y = NInf"
| "plus_xnum x NInf = NInf"

fun minus_xnum :: "xnum \<Rightarrow> xnum \<Rightarrow> xnum" where
  "minus_xnum NaN y = NaN"
| "minus_xnum x NaN = NaN"
| "minus_xnum (Fin a) (Fin b) = Fin (a - b)"
| "minus_xnum PInf PInf = NaN"
| "minus_xnum NInf NInf = NaN"
| "minus_xnum PInf y = PInf"
| "minus_xnum x NInf = PInf"
| "minus_xnum NInf y = NInf"
| "minus_xnum x PInf = NInf"

fun less_eq_xnum :: "xnum \<Rightarrow> xnum \<Rightarrow> bool" where
  "less_eq_xnum NaN y = False"
| "less_eq_xnum x NaN = False"
| "less_eq_xnum (Fin a) (Fin b) = (a \<le> b)"
| "less_eq_xnum NInf y = True"
| "less_eq_xnum x PInf = True"
| "less_eq_xnum x y = False"

fun less_xnum :: "xnum \<Rightarrow> xnum \<Rightarrow> bool" where
  "less_xnum NaN y = False"
| "less_xnum x NaN = False"
| "less_xnum (Fin a) (Fin b) = (a < b)"
| "less_xnum NInf NInf = False"
| "less_xnum PInf PInf = False"
| "less_xnum NInf y = True"
| "less_xnum x PInf = True"
| "less_xnum x y = False"

instance ..

end

text \<open>A product with an infinite price and a customer with an infinite budget.\<close>

definition product_G :: "xnum Product" where
  "product_G = \<lparr>id_product = 1, name = ''G'', category = HOME, price = PInf,
                 stock = 1, seller_id = 1\<rparr>"

definition vault :: "xnum system" where
  "vault = run [Add_product 0]
             (init_system (\<lambda>_. product_G) (\<lambda>_. CustomerAgent_init 1 ''C'' PInf [HOME]))"

section \<open>Facts about the operations\<close>

lemmas shop_defs =
  shop_def shop_heap_def shop_agents_def product_P_def product_Q_def init_system_def
  Marketplace_init_def CustomerAgent_init_def

lemmas op_defs =
  add_product_def add_to_cart_def remove_from_cart_def make_purchase_def
  process_order_def check_stock_def view_cart_def py_sum_def Let_def

lemma verify_stock_iff:
  "verify_stock s ps \<longleftrightarrow> (\<forall>r \<in> set ps. check_stock s (id_product (heap s r)))"
  by (induction ps) auto

lemma update_stock_price [simp]: "price (update_stock h ps r) = price (h r)"
  by (induction ps arbitrary: h) auto

lemma process_order_None:
  "\<not> verify_stock s ps \<Longrightarrow> process_order s c ps now = (None, s)"
  by (simp add: process_order_def)

lemma process_order_Some:
  assumes "verify_stock s ps"
  shows "process_order s c ps now =
    (Some \<lparr>order_id = order_counter (market s),
            customer_id = agent_id (agents s c),
            products_order = ps,
            total_amount = py_sum (map (\<lambda>r. price (heap s r)) ps),
            status = ''COMPLETED'',
            timestamp = now\<rparr>,
     s\<lparr>heap := update_stock (heap s) ps,
       market := (market s)
         \<lparr>orders := orders (market s) @
            [\<lparr>order_id = order_counter (market s),
              customer_id = agent_id (agents s c),
              products_order = ps,
              total_amount = py_sum (map (\<lambda>r. price (heap s r)) ps),
              status = ''COMPLETED'',
              timestamp = now\<rparr>],
          order_counter := order_counter (market s) + 1\<rparr>\<rparr>)"
  using assms by (simp add: process_order_def Let_def)

lemma process_order_agents: "agents (snd (process_order s c ps now)) = agents s"
  by (simp add: process_order_def Let_def)

lemma make_purchase_False:
  "\<not> (view_cart s c \<le> budget (agents s c) \<and> shopping_cart (agents s c) \<noteq> []
       \<and> verify_stock s (shopping_cart (agents s c)))
   \<Longrightarrow> make_purchase s c now = (False, s)"
  by (auto simp: make_purchase_def Let_def process_order_None)

lemma make_purchase_True:
  assumes "view_cart s c \<le> budget (agents s c)" "shopping_cart (agents s c) \<noteq> []"
    "verify_stock s (shopping_cart (agents s c))"
  shows "make_purchase s c now =
    (True,
     (snd (process_order s c (shopping_cart (agents s c)) now))
       \<lparr>agents := (agents s)(c := (agents s c)
          \<lparr>budget := budget (agents s c) - view_cart s c,
           purchase_history := purchase_history (agents s c) @ shopping_cart (agents s c),
           shopping_cart := []\<rparr>)\<rparr>)"
  using assms by (simp add: make_purchase_def Let_def process_order_Some)

lemma run_invariant:
  assumes "\<And>x s. P s \<Longrightarrow> P (step x s)" "P s"
  shows "P (run ops s)"
  using assms(2) by (induction ops arbitrary: s) (auto intro: assms(1))

lemma check_stock_in_catalogue:
  assumes "check_stock s i"
  shows "\<exists>r \<in> set (products (market s)). id_product (heap s r) = i \<and> 0 < stock (heap s r)"
proof -
  from assms obtain r
    where f: "find (\<lambda>r. id_product (heap s r) = i) (products (market s)) = Some r"
      and pos: "0 < stock (heap s r)"
    by (auto simp: check_stock_def split: option.splits)
  from f have "r \<in> set (products (market s))" "id_product (heap s r) = i"
    by (auto simp: find_Some_iff)
  with pos show ?thesis by blast
qed

lemma check_stock_agents [simp]: "check_stock (s\<lparr>agents := a\<rparr>) i = check_stock s i"
  by (simp add: check_stock_def split: option.splits)

lemma verify_stock_agents [simp]: "verify_stock (s\<lparr>agents := a\<rparr>) ps = verify_stock s ps"
  by (induction ps) simp_all

text \<open>What one operation does to the ledger, to the counter and to the prices.\<close>

lemma process_order_ledger:
  "process_order s c ps now = (None, s)
   \<or> (\<exists>order. process_order s c ps now =
         (Some order,
          s\<lparr>heap := update_stock (heap s) ps,
            market := (market s)\<lparr>orders := orders (market s) @ [order],
                                 order_counter := order_counter (market s) + 1\<rparr>\<rparr>)
       \<and> order_id order = order_counter (market s)
       \<and> products_order order = ps
       \<and> total_amount order = py_sum (map (\<lambda>r. price (heap s r)) ps))"
  by (cases "verify_stock s ps") (simp_all add: process_order_None process_order_Some)

lemma step_ledger:
  "(orders (market (step x s)) = orders (market s)
      \<and> order_counter (market (step x s)) = order_counter (market s))
   \<or> (\<exists>order. order_id order = order_counter (market s)
        \<and> total_amount order
            = py_sum (map (\<lambda>r. price (heap s r)) (products_order order))
        \<and> orders (market (step x s)) = orders (market s) @ [order]
        \<and> order_counter (market (step x s)) = order_counter (market s) + 1)"
proof (cases x)
  case (Add_product r)
  then show ?thesis by (simp add: add_product_def)
next
  case (Add_to_cart c r)
  then show ?thesis by (simp add: add_to_cart_def)
next
  case (Remove_from_cart c i)
  then show ?thesis by (simp add: remove_from_cart_def)
next
  case (Make_purchase c now)
  show ?thesis
  proof (cases "view_cart s c \<le> budget (agents s c) \<and> shopping_cart (agents s c) \<noteq> []
                \<and> verify_stock s (shopping_cart (agents s c))")
    case True
    then show ?thesis
      using Make_purchase by (simp add: make_purchase_True process_order_Some)
  next
    case False
    then have "make_purchase s c now = (False, s)"
      by (rule make_purchase_False)
    then show ?thesis
      using Make_purchase by simp
  qed
next
  case (Process_order c ps now)
  then show ?thesis
    using process_order_ledger [of s c ps now] by auto
qed

lemma step_price: "price (heap (step x s) r) = price (heap s r)"
proof (cases x)
  case (Make_purchase c now)
  show ?thesis
  proof (cases "view_cart s c \<le> budget (agents s c) \<and> shopping_cart (agents s c) \<noteq> []
                \<and> verify_stock s (shopping_cart (agents s c))")
    case True
    then show ?thesis
      using Make_purchase by (simp add: make_purchase_True process_order_Some)
  next
    case False
    then have "make_purchase s c now = (False, s)"
      by (rule make_purchase_False)
    then show ?thesis
      using Make_purchase by simp
  qed
next
  case (Process_order c ps now)
  then show ?thesis
    using process_order_ledger [of s c ps now] by auto
qed (simp_all add: add_product_def add_to_cart_def remove_from_cart_def)

section \<open>Failed purchases change nothing\<close>


text \<open>
  C7. A purchase with an empty shopping cart fails, and the state after it (stock,
  budget, cart, order ledger, purchase history) is the state before it.
\<close>

theorem make_purchase_empty_cart:
  "shopping_cart (agents s self) = [] \<Longrightarrow> make_purchase s self now = (False, s)"
  by (simp add: make_purchase_def)

theorem make_purchase_empty_cart_witness:
  "shopping_cart (agents shop 0) = [] \<and> make_purchase shop 0 7 = (False, shop)"
  using make_purchase_empty_cart [of shop 0 7]
  by (simp add: shop_defs op_defs)

text \<open>
  C2. The stock check covers the whole list before anything is written: when some
  product of the list fails \<^verbatim>\<open>check_stock\<close>, \<^verbatim>\<open>process_order\<close> returns no order and
  the state is the one it was called in, so no stock has changed; and \<^verbatim>\<open>make_purchase\<close>
  on a cart with such a product returns False and leaves budget, cart and everything
  else as they were.
\<close>

theorem stock_check_failure_changes_nothing:
  assumes "r \<in> set ps" and "\<not> check_stock s (id_product (heap s r))"
  shows "process_order s c ps now = (None, s)
       \<and> (shopping_cart (agents s c) = ps \<longrightarrow> make_purchase s c now = (False, s))"
proof -
  from assms have "\<not> verify_stock s ps"
    by (auto simp: verify_stock_iff)
  then show ?thesis
    by (auto simp: process_order_None make_purchase_False)
qed

text \<open>
  The scenario of the specification: customer 0 stages P while one unit is left,
  customer 1 buys that unit, and customer 0's purchase then fails with nothing changed.
\<close>

theorem stock_check_failure_changes_nothing_witness:
  "0 \<in> set [0::ref]
   \<and> \<not> check_stock (run [Add_to_cart 0 0, Add_to_cart 1 0, Make_purchase 1 5] shop)
         (id_product (heap (run [Add_to_cart 0 0, Add_to_cart 1 0, Make_purchase 1 5] shop) 0))
   \<and> shopping_cart (agents (run [Add_to_cart 0 0, Add_to_cart 1 0, Make_purchase 1 5] shop) 0)
       = [0]
   \<and> budget (agents (run [Add_to_cart 0 0, Add_to_cart 1 0, Make_purchase 1 5] shop) 0) = 150
   \<and> process_order (run [Add_to_cart 0 0, Add_to_cart 1 0, Make_purchase 1 5] shop) 0 [0] 9
       = (None, run [Add_to_cart 0 0, Add_to_cart 1 0, Make_purchase 1 5] shop)
   \<and> make_purchase (run [Add_to_cart 0 0, Add_to_cart 1 0, Make_purchase 1 5] shop) 0 9
       = (False, run [Add_to_cart 0 0, Add_to_cart 1 0, Make_purchase 1 5] shop)"
proof -
  define s where "s = run [Add_to_cart 0 0, Add_to_cart 1 0, Make_purchase 1 5] shop"
  have stock0: "stock (heap s 0) = 0" and ident: "id_product (heap s 0) = 1"
    and cat: "products (market s) = [0, 1]"
    and cart: "shopping_cart (agents s 0) = [0]" and bud: "budget (agents s 0) = 150"
    by (simp_all add: s_def shop_defs op_defs)
  have nostock: "\<not> check_stock s (id_product (heap s 0))"
    by (simp add: check_stock_def cat ident stock0)
  have mem: "0 \<in> set [0::ref]" by simp
  from stock_check_failure_changes_nothing [OF mem nostock, of 0 9] cart
  have "process_order s 0 [0] 9 = (None, s)" and "make_purchase s 0 9 = (False, s)"
    by simp_all
  with nostock cart bud show ?thesis
    unfolding s_def by simp
qed

text \<open>
  C6. When the total of the cart exceeds the customer's budget, \<^verbatim>\<open>make_purchase\<close>
  returns False and the state is unchanged: no order, and stock, budget and cart as they
  were. The only law used is that \<open>b < t\<close> excludes \<open>t \<le> b\<close>.
\<close>

theorem make_purchase_over_budget:
  fixes s :: "'a::{zero,plus,minus,preorder} system"
  assumes "budget (agents s self) < view_cart s self"
  shows "make_purchase s self now = (False, s)"
proof -
  from assms have "\<not> view_cart s self \<le> budget (agents s self)"
    by (simp add: less_le_not_le)
  then show ?thesis
    by (simp add: make_purchase_False)
qed

theorem make_purchase_over_budget_witness:
  "budget (agents (run [Add_to_cart 0 0, Add_to_cart 0 1, Add_to_cart 0 1, Add_to_cart 0 1] shop) 0)
     < view_cart (run [Add_to_cart 0 0, Add_to_cart 0 1, Add_to_cart 0 1, Add_to_cart 0 1] shop) 0
   \<and> make_purchase (run [Add_to_cart 0 0, Add_to_cart 0 1, Add_to_cart 0 1, Add_to_cart 0 1] shop) 0 9
     = (False, run [Add_to_cart 0 0, Add_to_cart 0 1, Add_to_cart 0 1, Add_to_cart 0 1] shop)"
proof -
  define s where
    "s = run [Add_to_cart 0 0, Add_to_cart 0 1, Add_to_cart 0 1, Add_to_cart 0 1] shop"
  have over: "budget (agents s 0) < view_cart s 0"
    by (simp add: s_def shop_defs op_defs)
  from make_purchase_over_budget [OF over, of 9] over show ?thesis
    unfolding s_def by simp
qed

section \<open>Adding to the cart\<close>

text \<open>
  C8. \<^verbatim>\<open>add_to_cart\<close> succeeds only if \<^verbatim>\<open>check_stock\<close> holds for the product's id at
  that moment (so the catalogue has an entry with that id and positive stock) and the
  product's price is at most the customer's current budget; the product is then appended
  to the cart. When either condition fails the call returns False and the state, the cart
  included, is unchanged.
\<close>

theorem add_to_cart_guard:
  "(fst (add_to_cart s self p) \<longrightarrow>
      check_stock s (id_product (heap s p))
      \<and> (\<exists>r \<in> set (products (market s)).
            id_product (heap s r) = id_product (heap s p) \<and> 0 < stock (heap s r))
      \<and> price (heap s p) \<le> budget (agents s self)
      \<and> shopping_cart (agents (snd (add_to_cart s self p)) self)
          = shopping_cart (agents s self) @ [p])
   \<and> (\<not> check_stock s (id_product (heap s p))
        \<or> \<not> price (heap s p) \<le> budget (agents s self) \<longrightarrow>
      add_to_cart s self p = (False, s))"
proof (cases "check_stock s (id_product (heap s p))
              \<and> price (heap s p) \<le> budget (agents s self)")
  case True
  then show ?thesis
    using check_stock_in_catalogue [of s "id_product (heap s p)"]
    by (simp add: add_to_cart_def)
next
  case False
  then show ?thesis
    by (auto simp: add_to_cart_def)
qed

text \<open>
  The customer with budget 10 is refused the product priced 20 and keeps an empty cart;
  the customer with budget 150 gets product P (price 100, stock 1) into the cart.
\<close>

theorem add_to_cart_guard_witness:
  "budget (agents shop 2) = 10 \<and> price (heap shop 1) = 20
   \<and> \<not> price (heap shop 1) \<le> budget (agents shop 2)
   \<and> add_to_cart shop 2 1 = (False, shop)
   \<and> shopping_cart (agents (snd (add_to_cart shop 2 1)) 2) = []
   \<and> fst (add_to_cart shop 0 0)
   \<and> check_stock shop (id_product (heap shop 0))
   \<and> price (heap shop 0) \<le> budget (agents shop 0)
   \<and> shopping_cart (agents (snd (add_to_cart shop 0 0)) 0) = [0]"
proof -
  have facts: "budget (agents shop 2) = 10" "price (heap shop 1) = 20"
    "shopping_cart (agents shop 2) = []" "shopping_cart (agents shop 0) = []"
    by (simp_all add: shop_defs op_defs)
  have ok: "fst (add_to_cart shop 0 0)"
    by (simp add: shop_defs op_defs)
  from facts have no: "\<not> price (heap shop 1) \<le> budget (agents shop 2)"
    by simp
  from add_to_cart_guard [of shop 2 1] no
  have refused: "add_to_cart shop 2 1 = (False, shop)"
    by blast
  from add_to_cart_guard [of shop 0 0] ok facts
  have "check_stock shop (id_product (heap shop 0))"
    "price (heap shop 0) \<le> budget (agents shop 0)"
    "shopping_cart (agents (snd (add_to_cart shop 0 0)) 0) = [0]"
    by simp_all
  with facts no refused ok show ?thesis
    by simp
qed

text \<open>
  C10. The guard of \<^verbatim>\<open>add_to_cart\<close> compares the one product's price with the whole
  budget and nothing else of the customer: its answer is the same whatever is already
  staged. So there is a customer who starts with an empty cart, within budget, and makes
  two adds that each succeed, each product alone being within the budget; the cart then
  holds exactly the two products, the budget is what it was, and the total of the cart
  is strictly above it. The purchase that follows is the call that refuses.
\<close>

theorem add_to_cart_ignores_staged_items:
  "fst (add_to_cart
         (s\<lparr>agents := (agents s)(c := (agents s c)\<lparr>shopping_cart := xs\<rparr>)\<rparr>) c p)
     = fst (add_to_cart s c p)
   \<and> fst (add_to_cart s c p)
     = (check_stock s (id_product (heap s p)) \<and> price (heap s p) \<le> budget (agents s c))
   \<and> (\<exists>(t :: int system) k q1 q2.
         shopping_cart (agents t k) = []
         \<and> view_cart t k \<le> budget (agents t k)
         \<and> price (heap t q1) \<le> budget (agents t k)
         \<and> price (heap t q2) \<le> budget (agents t k)
         \<and> fst (add_to_cart t k q1)
         \<and> shopping_cart (agents (run [Add_to_cart k q1] t) k) = [q1]
         \<and> view_cart (run [Add_to_cart k q1] t) k
             \<le> budget (agents (run [Add_to_cart k q1] t) k)
         \<and> fst (add_to_cart (run [Add_to_cart k q1] t) k q2)
         \<and> shopping_cart (agents (run [Add_to_cart k q1, Add_to_cart k q2] t) k) = [q1, q2]
         \<and> budget (agents (run [Add_to_cart k q1, Add_to_cart k q2] t) k)
             = budget (agents t k)
         \<and> view_cart (run [Add_to_cart k q1, Add_to_cart k q2] t) k
             = price (heap t q1) + price (heap t q2)
         \<and> budget (agents (run [Add_to_cart k q1, Add_to_cart k q2] t) k)
             < view_cart (run [Add_to_cart k q1, Add_to_cart k q2] t) k
         \<and> make_purchase (run [Add_to_cart k q1, Add_to_cart k q2] t) k 9
             = (False, run [Add_to_cart k q1, Add_to_cart k q2] t))"
proof (intro conjI)
  show "fst (add_to_cart
         (s\<lparr>agents := (agents s)(c := (agents s c)\<lparr>shopping_cart := xs\<rparr>)\<rparr>) c p)
     = fst (add_to_cart s c p)"
    by (simp add: add_to_cart_def)
next
  show "fst (add_to_cart s c p)
     = (check_stock s (id_product (heap s p)) \<and> price (heap s p) \<le> budget (agents s c))"
    by (simp add: add_to_cart_def)
next
  define t :: "int system"
    where "t = shop\<lparr>agents := (agents shop)(3 := CustomerAgent_init 4 ''F'' 30 [BOOKS])\<rparr>"
  define t2 where "t2 = run [Add_to_cart 3 1, Add_to_cart 3 1] t"
  have before: "shopping_cart (agents t 3) = []" "view_cart t 3 \<le> budget (agents t 3)"
    "price (heap t 1) \<le> budget (agents t 3)"
    by (simp_all add: t_def shop_defs op_defs)
  have first: "fst (add_to_cart t 3 1)"
    "shopping_cart (agents (run [Add_to_cart 3 1] t) 3) = [1]"
    "view_cart (run [Add_to_cart 3 1] t) 3 \<le> budget (agents (run [Add_to_cart 3 1] t) 3)"
    "fst (add_to_cart (run [Add_to_cart 3 1] t) 3 1)"
    by (simp_all add: t_def shop_defs op_defs)
  have cart2: "shopping_cart (agents t2 3) = [1, 1]"
    and bud2: "budget (agents t2 3) = budget (agents t 3)"
    and tot2: "view_cart t2 3 = price (heap t 1) + price (heap t 1)"
    and over: "budget (agents t2 3) < view_cart t2 3"
    by (simp_all add: t2_def t_def shop_defs op_defs)
  from over have "\<not> view_cart t2 3 \<le> budget (agents t2 3)"
    by simp
  then have refused: "make_purchase t2 3 9 = (False, t2)"
    by (simp add: make_purchase_False)
  from before first cart2 bud2 tot2 over refused
  have "shopping_cart (agents t 3) = []
         \<and> view_cart t 3 \<le> budget (agents t 3)
         \<and> price (heap t 1) \<le> budget (agents t 3)
         \<and> price (heap t 1) \<le> budget (agents t 3)
         \<and> fst (add_to_cart t 3 1)
         \<and> shopping_cart (agents (run [Add_to_cart 3 1] t) 3) = [1]
         \<and> view_cart (run [Add_to_cart 3 1] t) 3
             \<le> budget (agents (run [Add_to_cart 3 1] t) 3)
         \<and> fst (add_to_cart (run [Add_to_cart 3 1] t) 3 1)
         \<and> shopping_cart (agents (run [Add_to_cart 3 1, Add_to_cart 3 1] t) 3) = [1, 1]
         \<and> budget (agents (run [Add_to_cart 3 1, Add_to_cart 3 1] t) 3)
             = budget (agents t 3)
         \<and> view_cart (run [Add_to_cart 3 1, Add_to_cart 3 1] t) 3
             = price (heap t 1) + price (heap t 1)
         \<and> budget (agents (run [Add_to_cart 3 1, Add_to_cart 3 1] t) 3)
             < view_cart (run [Add_to_cart 3 1, Add_to_cart 3 1] t) 3
         \<and> make_purchase (run [Add_to_cart 3 1, Add_to_cart 3 1] t) 3 9
             = (False, run [Add_to_cart 3 1, Add_to_cart 3 1] t)"
    unfolding t2_def by simp
  then show "\<exists>(t :: int system) k q1 q2.
         shopping_cart (agents t k) = []
         \<and> view_cart t k \<le> budget (agents t k)
         \<and> price (heap t q1) \<le> budget (agents t k)
         \<and> price (heap t q2) \<le> budget (agents t k)
         \<and> fst (add_to_cart t k q1)
         \<and> shopping_cart (agents (run [Add_to_cart k q1] t) k) = [q1]
         \<and> view_cart (run [Add_to_cart k q1] t) k
             \<le> budget (agents (run [Add_to_cart k q1] t) k)
         \<and> fst (add_to_cart (run [Add_to_cart k q1] t) k q2)
         \<and> shopping_cart (agents (run [Add_to_cart k q1, Add_to_cart k q2] t) k) = [q1, q2]
         \<and> budget (agents (run [Add_to_cart k q1, Add_to_cart k q2] t) k)
             = budget (agents t k)
         \<and> view_cart (run [Add_to_cart k q1, Add_to_cart k q2] t) k
             = price (heap t q1) + price (heap t q2)
         \<and> budget (agents (run [Add_to_cart k q1, Add_to_cart k q2] t) k)
             < view_cart (run [Add_to_cart k q1, Add_to_cart k q2] t) k
         \<and> make_purchase (run [Add_to_cart k q1, Add_to_cart k q2] t) k 9
             = (False, run [Add_to_cart k q1, Add_to_cart k q2] t)"
    by blast
qed

section \<open>The commit\<close>

text \<open>
  C9. \<^verbatim>\<open>process_order\<close> never writes to a customer object (budget, cart and purchase
  history are as before), and its outcome does not depend on the budget: whenever the
  stock check passes it creates the order and appends it to the ledger, whatever the
  total is, and a different budget gives the same answer.
\<close>

theorem process_order_ignores_budget:
  "agents (snd (process_order s c ps now)) = agents s
   \<and> fst (process_order
            (s\<lparr>agents := (agents s)(c := (agents s c)\<lparr>budget := b\<rparr>)\<rparr>) c ps now)
       = fst (process_order s c ps now)
   \<and> (verify_stock s ps \<longrightarrow>
        (\<exists>order. fst (process_order s c ps now) = Some order
           \<and> total_amount order = py_sum (map (\<lambda>r. price (heap s r)) ps)
           \<and> orders (market (snd (process_order s c ps now)))
               = orders (market s) @ [order]))"
proof (cases "verify_stock s ps")
  case True
  then show ?thesis
    by (simp add: process_order_Some)
next
  case False
  then show ?thesis
    by (simp add: process_order_None)
qed

text \<open>
  Customer 0 has budget 150; the list P, Q, Q, Q totals 160, and the direct call still
  ledgers the order and leaves the budget at 150.
\<close>

theorem process_order_ignores_budget_witness:
  "verify_stock shop [0, 1, 1, 1]
   \<and> budget (agents shop 0) < py_sum (map (\<lambda>r. price (heap shop r)) [0, 1, 1, 1])
   \<and> (\<exists>order. fst (process_order shop 0 [0, 1, 1, 1] 9) = Some order
         \<and> total_amount order = 160
         \<and> orders (market (snd (process_order shop 0 [0, 1, 1, 1] 9))) = [order])
   \<and> budget (agents (snd (process_order shop 0 [0, 1, 1, 1] 9)) 0) = 150"
proof -
  have v: "verify_stock shop [0, 1, 1, 1]"
    by (simp add: shop_defs op_defs)
  have facts: "py_sum (map (\<lambda>r. price (heap shop r)) [0, 1, 1, 1]) = 160"
    "budget (agents shop 0) = 150" "orders (market shop) = []"
    by (simp_all add: shop_defs op_defs)
  from process_order_ignores_budget [of shop 0 "[0, 1, 1, 1]" 9] v facts
  show ?thesis
    by simp
qed

section \<open>Stock below zero\<close>

text \<open>
  C1. Every entry of the list is checked against the stock as it is before the commit,
  and every entry then takes one unit. With product P (stock 1) staged twice by the
  customer with budget 250, both adds and the purchase succeed and the stock of P
  ends at -1.
\<close>

theorem duplicate_cart_entry_stock_negative:
  "(\<forall>r. 0 \<le> stock (heap shop r))
   \<and> stock (heap shop 0) = 1
   \<and> fst (add_to_cart shop 1 0)
   \<and> fst (add_to_cart (run [Add_to_cart 1 0] shop) 1 0)
   \<and> shopping_cart (agents (run [Add_to_cart 1 0, Add_to_cart 1 0] shop) 1) = [0, 0]
   \<and> fst (make_purchase (run [Add_to_cart 1 0, Add_to_cart 1 0] shop) 1 7)
   \<and> stock (heap (run [Add_to_cart 1 0, Add_to_cart 1 0, Make_purchase 1 7] shop) 0) = - 1"
  by (simp add: shop_defs op_defs)

section \<open>The ledger\<close>

lemma ledger_ids_step:
  assumes "order_ids s = [1..int (length (orders (market s)))]"
    and "order_counter (market s) = int (length (orders (market s))) + 1"
  shows "order_ids (step x s) = [1..int (length (orders (market (step x s))))]
       \<and> order_counter (market (step x s)) = int (length (orders (market (step x s)))) + 1"
  using step_ledger [of x s]
proof (elim disjE exE conjE)
  assume "orders (market (step x s)) = orders (market s)"
    and "order_counter (market (step x s)) = order_counter (market s)"
  with assms show ?thesis
    by (simp add: order_ids_def)
next
  fix order :: "'a Order"
  assume oid: "order_id order = order_counter (market s)"
    and app: "orders (market (step x s)) = orders (market s) @ [order]"
    and cnt: "order_counter (market (step x s)) = order_counter (market s) + 1"
  have "[1..1 + int (length (orders (market s)))]
      = [1..int (length (orders (market s)))] @ [int (length (orders (market s))) + 1]"
    using upto_rec2 [of 1 "1 + int (length (orders (market s)))"] by simp
  with assms oid app cnt show ?thesis
    by (simp add: order_ids_def)
qed

lemma ledger_ids_run:
  "order_ids (run ops (init_system h cs))
     = [1..int (length (orders (market (run ops (init_system h cs)))))]
   \<and> order_counter (market (run ops (init_system h cs)))
     = int (length (orders (market (run ops (init_system h cs))))) + 1"
proof (rule run_invariant)
  show "order_ids (init_system h cs) = [1..int (length (orders (market (init_system h cs))))]
      \<and> order_counter (market (init_system h cs))
        = int (length (orders (market (init_system h cs)))) + 1"
    by (simp add: order_ids_def init_system_def Marketplace_init_def)
next
  fix x and s :: "'a system"
  assume "order_ids s = [1..int (length (orders (market s)))]
        \<and> order_counter (market s) = int (length (orders (market s))) + 1"
  then show "order_ids (step x s) = [1..int (length (orders (market (step x s))))]
      \<and> order_counter (market (step x s)) = int (length (orders (market (step x s)))) + 1"
    using ledger_ids_step [of s x] by blast
qed

text \<open>
  C5. In every state reached from a fresh marketplace the order ids of the ledger are
  1, 2, ..., n in this order: the first committed order has id 1, the ids are strictly
  increasing and pairwise different, and an order that \<^verbatim>\<open>process_order\<close> commits next
  gets an id above every id in the ledger.
\<close>

theorem order_ids_strictly_increasing:
  assumes "s = run ops (init_system h cs)"
  shows "order_ids s = [1..int (length (order_ids s))]
       \<and> sorted_wrt (<) (order_ids s)
       \<and> distinct (order_ids s)
       \<and> (order_ids s \<noteq> [] \<longrightarrow> hd (order_ids s) = 1)
       \<and> (process_order s c ps now = (Some order, s') \<longrightarrow>
            order_ids s' = order_ids s @ [order_id order]
            \<and> (\<forall>i \<in> set (order_ids s). i < order_id order))"
proof -
  have ids: "order_ids s = [1..int (length (order_ids s))]"
    and cnt: "order_counter (market s) = int (length (order_ids s)) + 1"
    using ledger_ids_run [of ops h cs] assms by (simp_all add: order_ids_def)
  have sorted: "sorted_wrt (<) (order_ids s)" and dist: "distinct (order_ids s)"
    by (subst ids, simp)+
  have first: "order_ids s \<noteq> [] \<longrightarrow> hd (order_ids s) = 1"
  proof
    assume "order_ids s \<noteq> []"
    then have "1 \<le> int (length (order_ids s))"
      by (cases "order_ids s") simp_all
    then have "[1..int (length (order_ids s))] = 1 # [2..int (length (order_ids s))]"
      by (simp add: upto_rec1)
    with ids have "order_ids s = 1 # [2..int (length (order_ids s))]"
      by simp
    then show "hd (order_ids s) = 1"
      by (metis list.sel(1))
  qed
  have next_id: "process_order s c ps now = (Some order, s') \<longrightarrow>
            order_ids s' = order_ids s @ [order_id order]
            \<and> (\<forall>i \<in> set (order_ids s). i < order_id order)"
  proof
    assume po: "process_order s c ps now = (Some order, s')"
    with process_order_ledger [of s c ps now]
    have oid: "order_id order = order_counter (market s)"
      and app: "orders (market s') = orders (market s) @ [order]"
      by auto
    have "\<forall>i \<in> set (order_ids s). i < order_id order"
    proof
      fix i assume "i \<in> set (order_ids s)"
      then have "i \<in> set [1..int (length (order_ids s))]"
        using ids by simp
      then show "i < order_id order"
        using oid cnt by simp
    qed
    with app show "order_ids s' = order_ids s @ [order_id order]
            \<and> (\<forall>i \<in> set (order_ids s). i < order_id order)"
      by (simp add: order_ids_def)
  qed
  from ids sorted dist first next_id show ?thesis
    by blast
qed

text \<open>
  A fresh marketplace, two catalogue entries, one purchase by customer 1: the ledger
  holds id 1, and the next direct commit gets an id above it.
\<close>

theorem order_ids_strictly_increasing_witness:
  "order_ids (run [Add_product 0, Add_product 1, Add_to_cart 1 1, Make_purchase 1 3]
                (init_system shop_heap shop_agents)) = [1]
   \<and> (\<exists>order s'.
         process_order (run [Add_product 0, Add_product 1, Add_to_cart 1 1, Make_purchase 1 3]
                          (init_system shop_heap shop_agents)) 0 [1] 9 = (Some order, s')
         \<and> order_ids s' = [1, order_id order] \<and> 1 < order_id order)"
proof -
  define S where "S = run [Add_product 0, Add_product 1, Add_to_cart 1 1, Make_purchase 1 3]
                        (init_system shop_heap shop_agents)"
  have ids: "order_ids S = [1]"
    by (simp add: S_def order_ids_def shop_defs op_defs)
  have "verify_stock S [1]"
    by (simp add: S_def shop_defs op_defs)
  then obtain order s' where po: "process_order S 0 [1] 9 = (Some order, s')"
    by (simp add: process_order_Some)
  from order_ids_strictly_increasing [OF S_def, of 0 "[1]" 9 order s'] po ids
  have "order_ids s' = [1, order_id order] \<and> 1 < order_id order"
    by simp
  with po ids show ?thesis
    unfolding S_def by blast
qed

lemma ledger_totals_step:
  assumes "\<forall>order \<in> set (orders (market s)).
             total_amount order = py_sum (map (\<lambda>r. price (heap s r)) (products_order order))"
  shows "\<forall>order \<in> set (orders (market (step x s))).
           total_amount order
             = py_sum (map (\<lambda>r. price (heap (step x s) r)) (products_order order))"
  using step_ledger [of x s] assms by (auto simp: step_price)

text \<open>
  C4. In every state reached from a fresh marketplace, each order of the ledger has as
  \<^verbatim>\<open>total_amount\<close> the sum of the \<^verbatim>\<open>price\<close> fields of the products it contains. The
  sum is taken by \<^verbatim>\<open>process_order\<close> itself, over the list it is given and the prices
  at the moment of the call; no total computed earlier enters it.
\<close>

theorem order_total_is_sum_of_prices:
  assumes "s = run ops (init_system h cs)"
  shows "(\<forall>order \<in> set (orders (market s)).
            total_amount order
              = py_sum (map (\<lambda>r. price (heap s r)) (products_order order)))
       \<and> (process_order s c ps now = (Some new_order, s') \<longrightarrow>
            products_order new_order = ps
            \<and> total_amount new_order = py_sum (map (\<lambda>r. price (heap s r)) ps)
            \<and> total_amount new_order = py_sum (map (\<lambda>r. price (heap s' r)) ps)
            \<and> orders (market s') = orders (market s) @ [new_order])"
proof
  have "\<forall>order \<in> set (orders (market (run ops (init_system h cs)))).
          total_amount order
            = py_sum (map (\<lambda>r. price (heap (run ops (init_system h cs)) r))
                (products_order order))"
  proof (rule run_invariant)
    show "\<forall>order \<in> set (orders (market (init_system h cs))).
            total_amount order
              = py_sum (map (\<lambda>r. price (heap (init_system h cs) r)) (products_order order))"
      by (simp add: init_system_def Marketplace_init_def)
  next
    fix x and t :: "'a system"
    assume "\<forall>order \<in> set (orders (market t)).
              total_amount order
                = py_sum (map (\<lambda>r. price (heap t r)) (products_order order))"
    then show "\<forall>order \<in> set (orders (market (step x t))).
              total_amount order
                = py_sum (map (\<lambda>r. price (heap (step x t) r)) (products_order order))"
      by (rule ledger_totals_step)
  qed
  with assms show "\<forall>order \<in> set (orders (market s)).
            total_amount order
              = py_sum (map (\<lambda>r. price (heap s r)) (products_order order))"
    by simp
next
  show "process_order s c ps now = (Some new_order, s') \<longrightarrow>
            products_order new_order = ps
            \<and> total_amount new_order = py_sum (map (\<lambda>r. price (heap s r)) ps)
            \<and> total_amount new_order = py_sum (map (\<lambda>r. price (heap s' r)) ps)
            \<and> orders (market s') = orders (market s) @ [new_order]"
    using process_order_ledger [of s c ps now] by auto
qed

text \<open>
  Customer 1 stages P and Q and buys: the one order of the ledger contains both and its
  total is 120; a direct commit of Q, Q is then totalled 40.
\<close>

theorem order_total_is_sum_of_prices_witness:
  "(\<exists>order. orders (market (run [Add_product 0, Add_product 1, Add_to_cart 1 0,
                                  Add_to_cart 1 1, Make_purchase 1 3]
                               (init_system shop_heap shop_agents))) = [order]
      \<and> products_order order = [0, 1]
      \<and> total_amount order = 120
      \<and> py_sum (map (\<lambda>r. price (heap (run [Add_product 0, Add_product 1, Add_to_cart 1 0,
                                            Add_to_cart 1 1, Make_purchase 1 3]
                                         (init_system shop_heap shop_agents)) r))
                  (products_order order)) = 120)
   \<and> (\<exists>new_order s'.
         process_order (run [Add_product 0, Add_product 1, Add_to_cart 1 0,
                             Add_to_cart 1 1, Make_purchase 1 3]
                          (init_system shop_heap shop_agents)) 0 [1, 1] 9
           = (Some new_order, s')
         \<and> products_order new_order = [1, 1] \<and> total_amount new_order = 40)"
proof -
  define S where "S = run [Add_product 0, Add_product 1, Add_to_cart 1 0,
                           Add_to_cart 1 1, Make_purchase 1 3]
                        (init_system shop_heap shop_agents)"
  obtain order where led: "orders (market S) = [order]" and ps: "products_order order = [0, 1]"
    by (simp add: S_def shop_defs op_defs)
  have prices: "py_sum (map (\<lambda>r. price (heap S r)) [0, 1]) = 120"
    "py_sum (map (\<lambda>r. price (heap S r)) [1, 1]) = 40"
    by (simp_all add: S_def shop_defs op_defs)
  have "verify_stock S [1, 1]"
    by (simp add: S_def shop_defs op_defs)
  then obtain new_order s' where po: "process_order S 0 [1, 1] 9 = (Some new_order, s')"
    by (simp add: process_order_Some)
  from order_total_is_sum_of_prices [OF S_def, of 0 "[1, 1]" 9 new_order s'] led ps prices po
  have "total_amount order = 120" and "products_order new_order = [1, 1]"
    and "total_amount new_order = 40"
    by simp_all
  with led ps prices po show ?thesis
    unfolding S_def by simp
qed

section \<open>The budget\<close>

lemma make_purchase_budget:
  assumes "make_purchase s c now = (True, s')"
  shows "view_cart s c \<le> budget (agents s c)
       \<and> budget (agents s' c) = budget (agents s c) - view_cart s c
       \<and> (\<forall>k. k \<noteq> c \<longrightarrow> agents s' k = agents s k)
       \<and> (\<exists>order. orders (market s') = orders (market s) @ [order]
            \<and> total_amount order = view_cart s c)"
proof (cases "view_cart s c \<le> budget (agents s c) \<and> shopping_cart (agents s c) \<noteq> []
              \<and> verify_stock s (shopping_cart (agents s c))")
  case True
  with assms show ?thesis
    by (auto simp: make_purchase_True process_order_Some view_cart_def)
next
  case False
  then have "make_purchase s c now = (False, s)"
    by (rule make_purchase_False)
  with assms show ?thesis
    by simp
qed

lemma step_budget:
  fixes s :: "'a::{zero,plus,minus,ord} system"
  assumes sub: "\<forall>x y::'a. y \<le> x \<longrightarrow> \<not> x - y < 0"
    and nonneg: "\<not> budget (agents s k) < 0"
  shows "\<not> budget (agents (step x s) k) < 0"
proof (cases x)
  case (Add_product r)
  with nonneg show ?thesis by (simp add: add_product_def)
next
  case (Add_to_cart c r)
  with nonneg show ?thesis by (auto simp: add_to_cart_def)
next
  case (Remove_from_cart c i)
  with nonneg show ?thesis by (auto simp: remove_from_cart_def)
next
  case (Make_purchase c now)
  show ?thesis
  proof (cases "fst (make_purchase s c now)")
    case True
    then have mp: "make_purchase s c now = (True, snd (make_purchase s c now))"
      by (metis prod.collapse)
    note b = make_purchase_budget [OF mp]
    show ?thesis
    proof (cases "k = c")
      case True
      from b sub have "\<not> budget (agents s c) - view_cart s c < 0"
        by blast
      with b True Make_purchase show ?thesis
        by simp
    next
      case False
      with b nonneg Make_purchase show ?thesis
        by simp
    qed
  next
    case False
    have "make_purchase s c now = (False, s)"
    proof (rule make_purchase_False, rule notI)
      assume "view_cart s c \<le> budget (agents s c) \<and> shopping_cart (agents s c) \<noteq> []
              \<and> verify_stock s (shopping_cart (agents s c))"
      then have "fst (make_purchase s c now)"
        by (simp add: make_purchase_True)
      with False show False by simp
    qed
    with nonneg Make_purchase show ?thesis
      by simp
  qed
next
  case (Process_order c ps now)
  with nonneg show ?thesis
    by (simp add: process_order_agents)
qed

text \<open>The law of subtraction that the budget needs, at the type with infinities and nan.\<close>

lemma xnum_diff_not_negative: "y \<le> x \<Longrightarrow> \<not> x - y < (0::xnum)"
  by (cases x; cases y) (simp_all add: zero_xnum_def)

text \<open>
  C3. A successful \<^verbatim>\<open>make_purchase\<close> appends one order to the ledger and leaves the
  customer's budget at the former budget minus that order's \<^verbatim>\<open>total_amount\<close>. No
  operation makes a budget negative: over any sequence of operations a budget that is
  not below 0 is not below 0 afterwards. The one law of the number type that is used is
  that \<open>x - y\<close> is not below 0 when \<open>y \<le> x\<close>; floating-point subtraction has it, also
  at the infinities, where the difference is nan and nan is not below 0.
\<close>

theorem purchase_debits_order_total:
  fixes s :: "'a::{zero,plus,minus,ord} system"
  shows "(make_purchase s c now = (True, s') \<longrightarrow>
            (\<exists>order. orders (market s') = orders (market s) @ [order]
               \<and> budget (agents s' c) = budget (agents s c) - total_amount order))
       \<and> ((\<forall>x y::'a. y \<le> x \<longrightarrow> \<not> x - y < 0) \<and> \<not> budget (agents s k) < 0 \<longrightarrow>
            \<not> budget (agents (run ops s) k) < 0)"
proof
  show "make_purchase s c now = (True, s') \<longrightarrow>
            (\<exists>order. orders (market s') = orders (market s) @ [order]
               \<and> budget (agents s' c) = budget (agents s c) - total_amount order)"
  proof
    assume "make_purchase s c now = (True, s')"
    from make_purchase_budget [OF this]
    show "\<exists>order. orders (market s') = orders (market s) @ [order]
               \<and> budget (agents s' c) = budget (agents s c) - total_amount order"
      by auto
  qed
next
  show "(\<forall>x y::'a. y \<le> x \<longrightarrow> \<not> x - y < 0) \<and> \<not> budget (agents s k) < 0 \<longrightarrow>
            \<not> budget (agents (run ops s) k) < 0"
  proof
    assume a: "(\<forall>x y::'a. y \<le> x \<longrightarrow> \<not> x - y < 0) \<and> \<not> budget (agents s k) < 0"
    show "\<not> budget (agents (run ops s) k) < 0"
    proof (rule run_invariant)
      show "\<not> budget (agents s k) < 0" using a by simp
    next
      fix x and t :: "'a system"
      assume "\<not> budget (agents t k) < 0"
      with a show "\<not> budget (agents (step x t) k) < 0"
        using step_budget [of t k x] by blast
    qed
  qed
qed

text \<open>
  The scenario of the specification: P costs 100 and has stock 1, the customer has
  budget 150 and P in the cart. The purchase succeeds, the stock of P becomes 0, the
  budget 50, and the one order has total 100. And with an infinite price against an
  infinite budget the purchase succeeds too, the budget becomes nan, which is not
  below 0.
\<close>

theorem purchase_debits_order_total_witness:
  "(\<exists>s'. make_purchase (run [Add_to_cart 0 0] shop) 0 7 = (True, s')
      \<and> (\<exists>order. orders (market s') = [order] \<and> total_amount order = 100
            \<and> budget (agents s' 0) = 150 - total_amount order)
      \<and> budget (agents s' 0) = 50 \<and> stock (heap s' 0) = 0)
   \<and> \<not> budget (agents shop 0) < 0
   \<and> \<not> budget (agents (run [Add_to_cart 0 0, Make_purchase 0 7] shop) 0) < 0
   \<and> \<not> budget (agents vault 0) < 0
   \<and> fst (make_purchase (run [Add_to_cart 0 0] vault) 0 7)
   \<and> budget (agents (run [Add_to_cart 0 0, Make_purchase 0 7] vault) 0) = NaN
   \<and> \<not> budget (agents (run [Add_to_cart 0 0, Make_purchase 0 7] vault) 0) < 0"
proof -
  define S where "S = run [Add_to_cart 0 0] shop"
  define S' where "S' = snd (make_purchase S 0 7)"
  have ok: "fst (make_purchase S 0 7)"
    by (simp add: S_def shop_defs op_defs)
  then have mp: "make_purchase S 0 7 = (True, S')"
    unfolding S'_def by (metis prod.collapse)
  have facts: "budget (agents S 0) = 150" "orders (market S) = []"
    "budget (agents shop 0) = 150"
    by (simp_all add: S_def shop_defs op_defs)
  have after: "budget (agents S' 0) = 50" "stock (heap S' 0) = 0"
    by (simp_all add: S'_def S_def shop_defs op_defs)
  have law: "\<forall>x y::int. y \<le> x \<longrightarrow> \<not> x - y < 0"
    by simp
  from purchase_debits_order_total [of S 0 7 S' 0 "[]"] mp facts
  obtain order where o: "orders (market S') = [order]"
    "budget (agents S' 0) = 150 - total_amount order"
    by auto
  with after have tot: "total_amount order = 100"
    by simp
  from purchase_debits_order_total [of shop 0 7 shop 0 "[Add_to_cart 0 0, Make_purchase 0 7]"]
    law facts
  have nn: "\<not> budget (agents (run [Add_to_cart 0 0, Make_purchase 0 7] shop) 0) < 0"
    by simp
  have xlaw: "\<forall>x y::xnum. y \<le> x \<longrightarrow> \<not> x - y < 0"
    by (simp add: xnum_diff_not_negative)
  have v0: "\<not> budget (agents vault 0) < 0"
    by (simp add: vault_def product_G_def init_system_def Marketplace_init_def
        CustomerAgent_init_def zero_xnum_def op_defs)
  have vok: "fst (make_purchase (run [Add_to_cart 0 0] vault) 0 7)"
    and vnan: "budget (agents (run [Add_to_cart 0 0, Make_purchase 0 7] vault) 0) = NaN"
    by (simp_all add: vault_def product_G_def init_system_def Marketplace_init_def
        CustomerAgent_init_def zero_xnum_def op_defs)
  from purchase_debits_order_total
         [of vault 0 7 vault 0 "[Add_to_cart 0 0, Make_purchase 0 7]"] xlaw v0
  have vnn: "\<not> budget (agents (run [Add_to_cart 0 0, Make_purchase 0 7] vault) 0) < 0"
    by blast
  from mp o tot after facts nn v0 vok vnan vnn show ?thesis
    unfolding S_def by auto
qed

end
